theory Spec2Isabelle
  imports Complex_Main
begin

section \<open>JavaScript numbers\<close>

text \<open>
  A JavaScript number is modelled as a finite value or one of the three special values
  \<open>Infinity\<close>, \<open>-Infinity\<close> and \<open>NaN\<close>. Finite values are exact reals: the
  rounding error of double arithmetic, overflow of finite results and the sign of zero
  are not modelled (a non-zero value divided by zero gives the infinity it gives for
  \<open>+0\<close>). What is modelled is where the special values come from and how they
  propagate: \<open>x / 0\<close>, \<open>0 / 0\<close>, \<open>parseFloat\<close> of a missing field, and
  comparisons with \<open>NaN\<close>, which are all false.

  A double computation can land on the other side of a rounding tie than the exact
  one: \<open>(200.01 - 200) / 200 * 100\<close> is just below 0.005 in doubles and prints as
  \<open>0.00\<close>, where the exact 0.005 rounds to 0.01. So a property stated below for all
  inputs is a bound, a sign or a tolerance of a cent, which the double computation
  meets as well, and never the exact last digit; exact values are stated only at
  concrete inputs on which the double computation gives the same two decimals.
\<close>

datatype jsnum = Fin real | PInf | NInf | NaN

fun signed_inf :: "bool \<Rightarrow> jsnum" where
  "signed_inf True = PInf"
| "signed_inf False = NInf"

fun js_add :: "jsnum \<Rightarrow> jsnum \<Rightarrow> jsnum" where
  "js_add (Fin a) (Fin b) = Fin (a + b)"
| "js_add NaN _ = NaN"
| "js_add _ NaN = NaN"
| "js_add PInf NInf = NaN"
| "js_add NInf PInf = NaN"
| "js_add PInf _ = PInf"
| "js_add _ PInf = PInf"
| "js_add NInf _ = NInf"
| "js_add _ NInf = NInf"

fun js_neg :: "jsnum \<Rightarrow> jsnum" where
  "js_neg (Fin a) = Fin (- a)"
| "js_neg PInf = NInf"
| "js_neg NInf = PInf"
| "js_neg NaN = NaN"

fun js_mul :: "jsnum \<Rightarrow> jsnum \<Rightarrow> jsnum" where
  "js_mul (Fin a) (Fin b) = Fin (a * b)"
| "js_mul NaN _ = NaN"
| "js_mul _ NaN = NaN"
| "js_mul (Fin a) PInf = (if a = 0 then NaN else signed_inf (0 < a))"
| "js_mul (Fin a) NInf = (if a = 0 then NaN else signed_inf (a < 0))"
| "js_mul PInf (Fin b) = (if b = 0 then NaN else signed_inf (0 < b))"
| "js_mul NInf (Fin b) = (if b = 0 then NaN else signed_inf (b < 0))"
| "js_mul PInf PInf = PInf"
| "js_mul NInf NInf = PInf"
| "js_mul PInf NInf = NInf"
| "js_mul NInf PInf = NInf"

fun js_div :: "jsnum \<Rightarrow> jsnum \<Rightarrow> jsnum" where
  "js_div (Fin a) (Fin b) =
     (if b = 0 then (if a = 0 then NaN else signed_inf (0 < a)) else Fin (a / b))"
| "js_div NaN _ = NaN"
| "js_div _ NaN = NaN"
| "js_div (Fin a) _ = Fin 0"
| "js_div PInf (Fin b) = signed_inf (0 \<le> b)"
| "js_div NInf (Fin b) = signed_inf (b < 0)"
| "js_div _ _ = NaN"

fun js_abs :: "jsnum \<Rightarrow> jsnum" where
  "js_abs (Fin a) = Fin \<bar>a\<bar>"
| "js_abs NaN = NaN"
| "js_abs _ = PInf"

fun js_lt :: "jsnum \<Rightarrow> jsnum \<Rightarrow> bool" where
  "js_lt (Fin a) (Fin b) = (a < b)"
| "js_lt NaN _ = False"
| "js_lt _ NaN = False"
| "js_lt NInf NInf = False"
| "js_lt NInf _ = True"
| "js_lt PInf _ = False"
| "js_lt (Fin a) PInf = True"
| "js_lt (Fin a) NInf = False"

text \<open>
  The operators \<open>+ - * / < \<le>\<close> and \<open>\<bar>_\<bar>\<close> on \<open>jsnum\<close> are the JavaScript ones,
  so that the formulas below read as in the source. \<open>x > y\<close> is \<open>y < x\<close>.
\<close>

instantiation jsnum :: "{plus, minus, uminus, times, inverse, abs, ord}"
begin

definition plus_jsnum :: "jsnum \<Rightarrow> jsnum \<Rightarrow> jsnum" where
  "plus_jsnum = js_add"

definition uminus_jsnum :: "jsnum \<Rightarrow> jsnum" where
  "uminus_jsnum = js_neg"

definition minus_jsnum :: "jsnum \<Rightarrow> jsnum \<Rightarrow> jsnum" where
  "minus_jsnum x y = js_add x (js_neg y)"

definition times_jsnum :: "jsnum \<Rightarrow> jsnum \<Rightarrow> jsnum" where
  "times_jsnum = js_mul"

definition divide_jsnum :: "jsnum \<Rightarrow> jsnum \<Rightarrow> jsnum" where
  "divide_jsnum = js_div"

definition inverse_jsnum :: "jsnum \<Rightarrow> jsnum" where
  "inverse_jsnum x = js_div (Fin 1) x"

definition abs_jsnum :: "jsnum \<Rightarrow> jsnum" where
  "abs_jsnum = js_abs"

definition less_jsnum :: "jsnum \<Rightarrow> jsnum \<Rightarrow> bool" where
  "less_jsnum = js_lt"

definition less_eq_jsnum :: "jsnum \<Rightarrow> jsnum \<Rightarrow> bool" where
  "less_eq_jsnum x y = (js_lt x y \<or> (x = y \<and> x \<noteq> NaN))"

instance ..

end

text \<open>\<open>Math.min(a, b)\<close>: \<open>NaN\<close> when either argument is \<open>NaN\<close>.\<close>

definition Math_min :: "jsnum \<Rightarrow> jsnum \<Rightarrow> jsnum" where
  "Math_min a b = (if a = NaN \<or> b = NaN then NaN else if a < b then a else b)"

text \<open>
  \<open>x.toFixed(2)\<close> picks the integer \<open>n\<close> with \<open>n / 100\<close> nearest to \<open>\<bar>x\<bar>\<close>, the
  larger one on a tie, and keeps the sign of \<open>x\<close>. \<open>toFixed2 x\<close> is
  \<open>Number(x.toFixed(2))\<close>: \<open>NaN\<close> and the infinities print as their names and
  read back as themselves.
\<close>

definition round2 :: "real \<Rightarrow> real" where
  "round2 r = sgn r * of_int \<lfloor>\<bar>r\<bar> * 100 + 1 / 2\<rfloor> / 100"

fun toFixed2 :: "jsnum \<Rightarrow> jsnum" where
  "toFixed2 (Fin r) = Fin (round2 r)"
| "toFixed2 x = x"

text \<open>
  A numeric field of a raw API record. The exchanges send numbers as strings; the field
  is \<open>Some v\<close> when it is present and non-empty, \<open>v\<close> being what \<open>parseFloat\<close>
  reads from it, and \<open>None\<close> when it is absent (or the empty string), which is
  falsy under \<open>||\<close> and parses to \<open>NaN\<close>.
\<close>

type_synonym num_field = "jsnum option"

definition parseFloat :: "num_field \<Rightarrow> jsnum" where
  "parseFloat f = (case f of None \<Rightarrow> NaN | Some v \<Rightarrow> v)"

text \<open>\<open>a || b\<close> on raw fields.\<close>

definition or_else :: "'a option \<Rightarrow> 'a option \<Rightarrow> 'a option" where
  "or_else a b = (case a of None \<Rightarrow> b | Some v \<Rightarrow> Some v)"

section \<open>Data model (models/position.model.ts)\<close>

datatype side = LONG | SHORT

datatype marginMode = CROSS | ISOLATED

record Position =
  symbol :: string
  side :: side
  size :: jsnum
  notionalValue :: jsnum
  entryPrice :: jsnum
  markPrice :: jsnum
  liquidationPrice :: jsnum
  liquidationPriceChangePercent :: jsnum
  currentFundingRate :: jsnum
  nextFundingRate :: jsnum
  leverage :: jsnum
  unrealizedPnl :: jsnum
  realizedPnl :: jsnum
  marginMode :: marginMode
  exchange :: string

record AccountSummary =
  acctExchange :: string
  accountId :: string
  baseCurrency :: string
  baseBalance :: jsnum
  totalNotionalValue :: jsnum
  accountLeverage :: jsnum
  openPositionsCount :: nat
  openOrdersCount :: nat
  liquidationBuffer :: jsnum
  accountMarginRatio :: jsnum

record ExchangeData =
  positions :: "Position list"
  accountSummary :: AccountSummary

datatype error =
  TypeError
  | RequestFailed
  | InvalidAccountInfo
  | InvalidSelection string string

section \<open>Binance client (exchanges/binance.client.ts)\<close>

datatype BinanceAccountType = FUTURES | PORTFOLIO_MARGIN

fun accountType_string :: "BinanceAccountType \<Rightarrow> string" where
  "accountType_string FUTURES = ''futures''"
| "accountType_string PORTFOLIO_MARGIN = ''portfolioMargin''"

text \<open>
  A raw position record of \<open>positionRisk\<close>, with the fields the client reads. The
  symbol is always present; every other field may be absent.
\<close>

record binance_position =
  b_symbol :: string
  b_positionAmt :: num_field
  b_position :: num_field
  b_entryPrice :: num_field
  b_avgEntryPrice :: num_field
  b_markPrice :: num_field
  b_leverage :: num_field
  b_unRealizedProfit :: num_field
  b_unrealizedPnl :: num_field
  b_liquidationPrice :: num_field
  b_marginType :: "string option"

text \<open>An entry of the funding-rate list (\<open>premiumIndex\<close> with \<open>nextFundingRate\<close> added).\<close>

record binance_funding =
  f_symbol :: string
  f_lastFundingRate :: num_field
  f_nextFundingRate :: num_field

record binance_account =
  totalMarginBalance :: num_field
  totalMaintMargin :: num_field
  actualEquity :: num_field
  accountMaintMargin :: num_field
  accountInitialMargin :: num_field

text \<open>\<open>s.toLowerCase()\<close>, on ASCII letters.\<close>

definition toLowerCase :: "string \<Rightarrow> string" where
  "toLowerCase s =
     map (\<lambda>c. if 65 \<le> (of_char c :: nat) \<and> (of_char c :: nat) \<le> 90
               then char_of (of_char c + (32 :: nat)) else c) s"

text \<open>\<open>s.includes(sub)\<close>.\<close>

fun str_includes :: "string \<Rightarrow> string \<Rightarrow> bool" where
  "str_includes [] sub = (sub = [])"
| "str_includes (c # cs) sub = (take (length sub) (c # cs) = sub \<or> str_includes cs sub)"

definition marginMode_of :: "string \<Rightarrow> marginMode" where
  "marginMode_of marginType = (if toLowerCase marginType = ''cross'' then CROSS else ISOLATED)"

definition binance_calculateLiquidationDistance :: "jsnum \<Rightarrow> jsnum \<Rightarrow> jsnum" where
  "binance_calculateLiquidationDistance mark liq =
     (if liq = Fin 0 then Fin 0
      else toFixed2 ((\<bar>mark - liq\<bar> / mark) * Fin 100))"

text \<open>
  The liquidation price of the portfolio-margin branch (the block commented
  \<open>Calculate liquidation price if not provided\<close>): a reported price that is 0 or
  below 0.001 is replaced by an estimate from the mark price and the leverage.
\<close>

definition binance_pm_liquidationPrice :: "jsnum \<Rightarrow> jsnum \<Rightarrow> jsnum \<Rightarrow> jsnum \<Rightarrow> bool \<Rightarrow> jsnum" where
  "binance_pm_liquidationPrice reported positionAmt mark lev isCoinM =
    (let maintenanceMarginRatio = Fin 0.013
     in if reported = Fin 0 \<or> reported < Fin 0.001 then
          (if isCoinM then
             (if positionAmt < Fin 0
              then mark * (Fin 1 + (maintenanceMarginRatio + (Fin 1 / lev) + Fin 0.005))
              else mark * (Fin 1 - maintenanceMarginRatio))
           else
             (if positionAmt < Fin 0
              then mark * (Fin 1 + (Fin 1 / lev) + maintenanceMarginRatio)
              else mark * (Fin 1 - (Fin 1 / lev) - maintenanceMarginRatio)))
        else reported)"

text \<open>
  The callback of the portfolio-margin branch of \<open>processPositions\<close>. With the symbol
  present it has no statement that throws.
\<close>

definition binance_pm_position :: "binance_funding list \<Rightarrow> binance_position \<Rightarrow> Position" where
  "binance_pm_position fundingRates pos =
    (let symbol = b_symbol pos;
         positionAmt = parseFloat (or_else (b_positionAmt pos) (b_position pos));
         entryPrice = parseFloat (or_else (b_entryPrice pos) (b_avgEntryPrice pos));
         markPrice = parseFloat (or_else (b_markPrice pos) (b_markPrice pos));
         leverage = parseFloat (or_else (b_leverage pos) (Some (Fin 1)));
         unrealizedProfit =
           parseFloat (or_else (or_else (b_unRealizedProfit pos) (b_unrealizedPnl pos)) (Some (Fin 0)));
         marginType =
           (case b_marginType pos of
              None \<Rightarrow> ''cross'' | Some m \<Rightarrow> if m = [] then ''cross'' else m);
         isCoinM = (str_includes symbol ''_'' \<or> str_includes symbol ''USD_'');
         liquidationPrice =
           binance_pm_liquidationPrice
             (parseFloat (or_else (b_liquidationPrice pos) (Some (Fin 0))))
             positionAmt markPrice leverage isCoinM;
         liquidationDistance = binance_calculateLiquidationDistance markPrice liquidationPrice
     in if isCoinM then
          \<lparr> symbol = symbol,
            side = (if positionAmt > Fin 0 then LONG else SHORT),
            size = \<bar>positionAmt\<bar>,
            notionalValue = toFixed2 (positionAmt * markPrice),
            entryPrice = toFixed2 entryPrice,
            markPrice = toFixed2 markPrice,
            liquidationPrice = toFixed2 liquidationPrice,
            liquidationPriceChangePercent = toFixed2 liquidationDistance,
            currentFundingRate = Fin 0,
            nextFundingRate = Fin 0,
            leverage = toFixed2 leverage,
            unrealizedPnl = toFixed2 unrealizedProfit,
            realizedPnl = Fin 0,
            marginMode = marginMode_of marginType,
            exchange = ''binance'' \<rparr>
        else
          (let fundingRate = find (\<lambda>fr. f_symbol fr = symbol) fundingRates;
               positionSize = toFixed2 positionAmt
           in
          \<lparr> symbol = symbol,
            side = (if positionSize > Fin 0 then LONG else SHORT),
            size = \<bar>positionSize\<bar>,
            notionalValue = toFixed2 \<bar>positionSize * markPrice\<bar>,
            entryPrice = toFixed2 entryPrice,
            markPrice = toFixed2 markPrice,
            liquidationPrice = toFixed2 liquidationPrice,
            liquidationPriceChangePercent = liquidationDistance,
            currentFundingRate =
              toFixed2 (case fundingRate of
                          Some fr \<Rightarrow> parseFloat (f_lastFundingRate fr) * Fin 100 | None \<Rightarrow> Fin 0),
            nextFundingRate =
              toFixed2 (case fundingRate of
                          Some fr \<Rightarrow> parseFloat (f_nextFundingRate fr) * Fin 100 | None \<Rightarrow> Fin 0),
            leverage = toFixed2 leverage,
            unrealizedPnl = toFixed2 unrealizedProfit,
            realizedPnl = Fin 0,
            marginMode = marginMode_of marginType,
            exchange = ''binance'' \<rparr>))"

text \<open>
  The callback of the futures branch. \<open>pos.marginType.toLowerCase()\<close> throws a
  TypeError when the field is absent; nothing else in it throws.
\<close>

definition binance_futures_position ::
  "binance_funding list \<Rightarrow> binance_position \<Rightarrow> error + Position" where
  "binance_futures_position fundingRates pos =
    (let fundingRate = find (\<lambda>fr. f_symbol fr = b_symbol pos) fundingRates;
         positionSize = toFixed2 (parseFloat (b_positionAmt pos));
         entryPrice = toFixed2 (parseFloat (b_entryPrice pos));
         markPrice = toFixed2 (parseFloat (b_markPrice pos));
         leverage = toFixed2 (parseFloat (b_leverage pos));
         unrealizedPnl = toFixed2 (parseFloat (b_unRealizedProfit pos));
         liquidationPrice = toFixed2 (parseFloat (b_liquidationPrice pos));
         notionalValue = toFixed2 \<bar>positionSize * markPrice\<bar>;
         liquidationDistance =
           toFixed2 (binance_calculateLiquidationDistance markPrice liquidationPrice);
         currentFundingRate =
           toFixed2 (case fundingRate of
                       Some fr \<Rightarrow> parseFloat (f_lastFundingRate fr) * Fin 100 | None \<Rightarrow> Fin 0);
         nextFundingRate =
           toFixed2 (case fundingRate of
                       Some fr \<Rightarrow> parseFloat (f_nextFundingRate fr) * Fin 100 | None \<Rightarrow> Fin 0)
     in case b_marginType pos of
          None \<Rightarrow> Inl TypeError
        | Some marginType \<Rightarrow> Inr
           \<lparr> symbol = b_symbol pos,
             side = (if positionSize > Fin 0 then LONG else SHORT),
             size = \<bar>positionSize\<bar>,
             notionalValue = notionalValue,
             entryPrice = entryPrice,
             markPrice = markPrice,
             liquidationPrice = liquidationPrice,
             liquidationPriceChangePercent = liquidationDistance,
             currentFundingRate = currentFundingRate,
             nextFundingRate = nextFundingRate,
             leverage = leverage,
             unrealizedPnl = unrealizedPnl,
             realizedPnl = Fin 0,
             marginMode = marginMode_of marginType,
             exchange = ''binance'' \<rparr>)"

text \<open>\<open>Promise.all\<close>: the results in order, or the first rejection.\<close>

fun Promise_all :: "(error + 'a) list \<Rightarrow> error + 'a list" where
  "Promise_all [] = Inr []"
| "Promise_all (Inl e # _) = Inl e"
| "Promise_all (Inr x # rs) = (case Promise_all rs of Inl e \<Rightarrow> Inl e | Inr xs \<Rightarrow> Inr (x # xs))"

text \<open>
  \<open>processPositions\<close>. Its \<open>try\<close> returns the promise of \<open>Promise.all\<close> without
  awaiting it, so a rejection from a callback is not caught there and reaches the caller
  (\<open>Inl\<close>); the \<open>catch\<close> that returns \<open>[]\<close> covers only a synchronous throw of
  \<open>filter\<close>/\<open>map\<close> themselves, which needs a response that is not an array and does
  not arise for a list.
\<close>

definition binance_processPositions ::
  "BinanceAccountType \<Rightarrow> binance_position list \<Rightarrow> binance_funding list \<Rightarrow> error + Position list" where
  "binance_processPositions accountType positionsData fundingRates =
    (if accountType = PORTFOLIO_MARGIN
     then Promise_all (map (\<lambda>pos. Inr (binance_pm_position fundingRates pos)) positionsData)
     else Promise_all
            (map (binance_futures_position fundingRates)
               (filter (\<lambda>pos. \<bar>parseFloat (b_positionAmt pos)\<bar> > Fin 0) positionsData)))"

text \<open>
  \<open>processAccountSummary\<close>. \<open>totalUSDTBalance\<close> is what
  \<open>calculateTotalUSDTBalance()\<close> resolves to (it catches its own errors and is read
  on the futures branch only). Nothing in the function throws.
\<close>

definition binance_processAccountSummary ::
  "BinanceAccountType \<Rightarrow> jsnum \<Rightarrow> binance_account \<Rightarrow> Position list \<Rightarrow> 'o list \<Rightarrow> AccountSummary" where
  "binance_processAccountSummary accountType totalUSDTBalance accountInfo positionList openOrders =
    (let totalNotionalValue = foldl (\<lambda>sum position. sum + notionalValue position) (Fin 0) positionList;
         totalLeverage = foldl (\<lambda>sum position. sum + leverage position) (Fin 0) positionList;
         accountLeverage =
           (if length positionList > 0
            then toFixed2 (totalLeverage / Fin (real (length positionList))) else Fin 0);
         (baseBalance, marginRatio, liquidationBuffer) =
           (if accountType = FUTURES then
              (let totalMarginBalance = toFixed2 (parseFloat (totalMarginBalance accountInfo));
                   totalMaintenanceMargin = toFixed2 (parseFloat (totalMaintMargin accountInfo));
                   baseBalance = totalUSDTBalance;
                   marginRatio = toFixed2 (totalMaintenanceMargin / totalMarginBalance * Fin 100);
                   calculatedBuffer =
                     (if totalMaintenanceMargin > Fin 0
                      then toFixed2 (((totalMarginBalance - totalMaintenanceMargin)
                                       / totalMaintenanceMargin) * Fin 100)
                      else Fin 0)
               in (baseBalance, marginRatio, Math_min calculatedBuffer (Fin 100)))
            else
              (let totalBalance =
                     toFixed2 (parseFloat (or_else (actualEquity accountInfo) (Some (Fin 0))));
                   maintenanceMargin =
                     toFixed2 (parseFloat (or_else (accountMaintMargin accountInfo) (Some (Fin 0))));
                   baseBalance = totalBalance;
                   marginRatio =
                     (if maintenanceMargin > Fin 0 \<and> totalBalance > Fin 0
                      then toFixed2 (maintenanceMargin / totalBalance * Fin 100) else Fin 0);
                   calculatedBuffer =
                     (if maintenanceMargin > Fin 0
                      then toFixed2 (((totalBalance - maintenanceMargin) / maintenanceMargin) * Fin 100)
                      else Fin 0)
               in (baseBalance, marginRatio, Math_min calculatedBuffer (Fin 100))))
     in \<lparr> acctExchange = ''binance'',
          accountId = accountType_string accountType,
          baseCurrency = ''USDT'',
          baseBalance = baseBalance,
          totalNotionalValue = totalNotionalValue,
          accountLeverage = accountLeverage,
          openPositionsCount = length positionList,
          openOrdersCount = length openOrders,
          liquidationBuffer = liquidationBuffer,
          accountMarginRatio = marginRatio \<rparr>)"

text \<open>
  What the network answers during one \<open>getExchangeData\<close>: each request either fails
  (\<open>Inl\<close>) or delivers its payload. \<open>syncTime\<close> catches its own failure and is left
  out. \<open>totalUSDTBalance\<close> is the number \<open>calculateTotalUSDTBalance\<close> resolves to.
\<close>

type_synonym raw_order = string

record binance_net =
  accountInfo_resp :: "error + binance_account"
  positions_resp :: "error + binance_position list"
  openOrders_resp :: "error + raw_order list"
  fundingRates_resp :: "error + binance_funding list"
  totalUSDTBalance :: jsnum

record BinanceClient =
  accountType :: BinanceAccountType
  lastValidData :: ExchangeData

text \<open>The constructor: an empty snapshot with an all-zero summary.\<close>

definition new_BinanceClient :: "BinanceAccountType \<Rightarrow> BinanceClient" where
  "new_BinanceClient t =
     \<lparr> accountType = t,
       lastValidData =
         \<lparr> positions = [],
           accountSummary =
             \<lparr> acctExchange = ''binance'',
               accountId = accountType_string t,
               baseCurrency = ''USDT'',
               baseBalance = Fin 0,
               totalNotionalValue = Fin 0,
               accountLeverage = Fin 0,
               openPositionsCount = 0,
               openOrdersCount = 0,
               liquidationBuffer = Fin 0,
               accountMarginRatio = Fin 0 \<rparr> \<rparr> \<rparr>"




section \<open>Bybit client (exchanges/bybit.client.ts)\<close>

record bybit_position =
  y_symbol :: string
  y_size :: num_field
  y_avgPrice :: num_field
  y_markPrice :: num_field
  y_side :: string
  y_leverage :: num_field
  y_unrealisedPnl :: num_field
  y_cumRealisedPnl :: num_field
  y_positionValue :: num_field
  y_walletBalance :: num_field
  y_tradeMode :: "int option"

record bybit_ticker =
  t_symbol :: string
  t_fundingRate :: num_field
  t_nextFundingRate :: num_field

text \<open>An entry of \<open>list\<close> in the wallet-balance response; \<open>coin\<close> lists its coins.\<close>

record bybit_account =
  coin :: "string list option"
  totalEquity :: num_field
  totalInitialMargin :: num_field
  totalMaintenanceMargin :: num_field


record BybitClient =
  bybit_lastValidData :: ExchangeData

definition new_BybitClient :: BybitClient where
  "new_BybitClient =
     \<lparr> bybit_lastValidData =
         \<lparr> positions = [],
           accountSummary =
             \<lparr> acctExchange = ''bybit'',
               accountId = ''unified'',
               baseCurrency = ''USDT'',
               baseBalance = Fin 0,
               totalNotionalValue = Fin 0,
               accountLeverage = Fin 0,
               openPositionsCount = 0,
               openOrdersCount = 0,
               liquidationBuffer = Fin 0,
               accountMarginRatio = Fin 0 \<rparr> \<rparr> \<rparr>"



definition bybit_calculateLiquidationDistance :: "jsnum \<Rightarrow> jsnum \<Rightarrow> side \<Rightarrow> jsnum" where
  "bybit_calculateLiquidationDistance mark liq sd =
     (if liq = Fin 0 then Fin 0
      else toFixed2 ((if sd = LONG then liq - mark else mark - liq) / mark * Fin 100))"

definition bybit_calculateLiquidationPrice ::
  "jsnum \<Rightarrow> jsnum \<Rightarrow> jsnum \<Rightarrow> jsnum \<Rightarrow> jsnum \<Rightarrow> side \<Rightarrow> jsnum" where
  "bybit_calculateLiquidationPrice entry positionSize availableBalance initialMargin maintenanceMargin sd =
     (if positionSize = Fin 0 then Fin 0
      else (let marginDiff = availableBalance + initialMargin - maintenanceMargin
            in if sd = LONG
               then toFixed2 (entry - (marginDiff / \<bar>positionSize\<bar>))
               else toFixed2 (entry + (marginDiff / \<bar>positionSize\<bar>))))"

definition bybit_mapPosition :: "bybit_position \<Rightarrow> bybit_ticker option \<Rightarrow> Position" where
  "bybit_mapPosition pos fundingRate =
    (let size = toFixed2 \<bar>parseFloat (y_size pos)\<bar>;
         entryPrice = toFixed2 (parseFloat (y_avgPrice pos));
         markPrice = toFixed2 (parseFloat (y_markPrice pos));
         side = (if y_side pos = ''Buy'' then LONG else SHORT);
         leverage = toFixed2 (parseFloat (y_leverage pos));
         unrealizedPnl = toFixed2 (parseFloat (y_unrealisedPnl pos));
         realizedPnl = toFixed2 (parseFloat (or_else (y_cumRealisedPnl pos) (Some (Fin 0))));
         notionalValue = toFixed2 (parseFloat (y_positionValue pos));
         initialMargin = notionalValue / leverage;
         maintenanceMargin = initialMargin * Fin 0.4;
         availableBalance = toFixed2 (parseFloat (or_else (y_walletBalance pos) (Some (Fin 0))));
         liquidationPrice =
           bybit_calculateLiquidationPrice entryPrice size availableBalance initialMargin
             maintenanceMargin side;
         currentFundingRate =
           toFixed2 (case fundingRate of
                       Some fr \<Rightarrow> parseFloat (t_fundingRate fr) * Fin 100 | None \<Rightarrow> Fin 0);
         nextFundingRate =
           toFixed2 (case fundingRate of
                       Some fr \<Rightarrow> parseFloat (or_else (t_nextFundingRate fr) (t_fundingRate fr)) * Fin 100
                     | None \<Rightarrow> Fin 0);
         liquidationDistance =
           toFixed2 (bybit_calculateLiquidationDistance markPrice liquidationPrice side);
         marginMode = (if y_tradeMode pos = Some 1 then ISOLATED else CROSS)
     in \<lparr> symbol = y_symbol pos,
          side = side,
          size = size,
          notionalValue = notionalValue,
          entryPrice = entryPrice,
          markPrice = markPrice,
          liquidationPrice = liquidationPrice,
          liquidationPriceChangePercent = liquidationDistance,
          currentFundingRate = currentFundingRate,
          nextFundingRate = nextFundingRate,
          leverage = leverage,
          unrealizedPnl = unrealizedPnl,
          realizedPnl = realizedPnl,
          marginMode = marginMode,
          exchange = ''bybit'' \<rparr>)"

text \<open>
  \<open>calculateTotalNotionalValue\<close>, called on the normalized positions: \<open>parseFloat\<close> of
  a number gives the number back.
\<close>

definition bybit_calculateTotalNotionalValue :: "Position list \<Rightarrow> jsnum" where
  "bybit_calculateTotalNotionalValue positionList =
     toFixed2 (foldl (\<lambda>totalNotional position.
                        totalNotional + \<bar>size position\<bar> * markPrice position)
                 (Fin 0) positionList)"


text \<open>The account summary that \<open>getExchangeData\<close> builds inline.\<close>

definition bybit_accountSummary ::
  "jsnum \<Rightarrow> bybit_account \<Rightarrow> Position list \<Rightarrow> 'o list \<Rightarrow> AccountSummary" where
  "bybit_accountSummary baseBal accountInfo positionList openOrders =
    (let totalNotionalValue = bybit_calculateTotalNotionalValue positionList;
         accountLeverage =
           (if length positionList > 0 then
              (let weightedLeverageSum =
                     foldl (\<lambda>sum position. sum + (leverage position * notionalValue position))
                       (Fin 0) positionList
               in if totalNotionalValue > Fin 0
                  then toFixed2 (weightedLeverageSum / totalNotionalValue) else Fin 0)
            else Fin 0);
         totalEquity = toFixed2 (parseFloat (or_else (totalEquity accountInfo) (Some (Fin 0))));
         totalMaintenanceMargin =
           toFixed2 (parseFloat (or_else (totalMaintenanceMargin accountInfo) (Some (Fin 0))));
         marginRatio =
           (if totalEquity > Fin 0
            then toFixed2 ((totalMaintenanceMargin / totalEquity) * Fin 100) else Fin 0);
         liquidationBuffer =
           (if totalMaintenanceMargin > Fin 0
            then toFixed2 ((totalEquity - totalMaintenanceMargin) / totalMaintenanceMargin * Fin 100)
            else Fin 0)
     in \<lparr> acctExchange = ''bybit'',
          accountId = ''unified'',
          baseCurrency = ''USDT'',
          baseBalance = baseBal,
          totalNotionalValue = totalNotionalValue,
          accountLeverage = accountLeverage,
          openPositionsCount = length positionList,
          openOrdersCount = length openOrders,
          liquidationBuffer = Math_min liquidationBuffer (Fin 100),
          accountMarginRatio = marginRatio \<rparr>)"



section \<open>Data fetcher service (services/dataFetcherService.ts)\<close>

datatype client = Binance BinanceClient | Bybit BybitClient

text \<open>
  The module's objects that are keyed by exchange and then by account
  (\<open>exchangeClients\<close>, \<open>cachedData.exchanges\<close>, \<open>lastFetchTimes\<close>, \<open>errorCounts\<close>,
  \<open>backoffTimes\<close>) all have exactly the outer keys \<open>binance\<close> and \<open>bybit\<close>, and no
  code adds or removes one. They are functions from the exchange to a map of its
  accounts; \<open>None\<close> in the inner map is \<open>undefined\<close>.
\<close>

record CombinedData =
  exchanges :: "string \<Rightarrow> string \<rightharpoonup> ExchangeData"
  currentExchange :: string
  currentAccount :: string
  availableExchanges :: "string list"
  availableAccounts :: "string \<rightharpoonup> string list"

record server_state =
  exchangeClients :: "string \<Rightarrow> string \<rightharpoonup> client"
  cachedData :: CombinedData
  lastFetchTimes :: "string \<Rightarrow> string \<rightharpoonup> int"
  errorCounts :: "string \<Rightarrow> string \<rightharpoonup> nat"
  backoffTimes :: "string \<Rightarrow> string \<rightharpoonup> int"

definition initial_cachedData :: CombinedData where
  "initial_cachedData =
     \<lparr> exchanges = (\<lambda>e. Map.empty),
       currentExchange = ''binance'',
       currentAccount = ''futures'',
       availableExchanges = [''binance'', ''bybit''],
       availableAccounts =
         [''binance'' \<mapsto> [''futures'', ''portfolioMargin''], ''bybit'' \<mapsto> [''unified'']] \<rparr>"

text \<open>The module state when it is loaded, before any client is registered.\<close>

definition initial_state :: server_state where
  "initial_state =
     \<lparr> exchangeClients = (\<lambda>e. Map.empty),
       cachedData = initial_cachedData,
       lastFetchTimes = (\<lambda>e. Map.empty),
       errorCounts = (\<lambda>e. Map.empty),
       backoffTimes = (\<lambda>e. Map.empty) \<rparr>"

text \<open>
  The state after \<open>initializeExchangeClients\<close> has registered the three clients (each
  \<open>initialize\<close> having succeeded).
\<close>

definition registered_state :: server_state where
  "registered_state =
     initial_state
       \<lparr> exchangeClients :=
           (\<lambda>e. if e = ''binance''
                 then [''futures'' \<mapsto> Binance (new_BinanceClient FUTURES),
                       ''portfolioMargin'' \<mapsto> Binance (new_BinanceClient PORTFOLIO_MARGIN)]
                 else if e = ''bybit'' then [''unified'' \<mapsto> Bybit new_BybitClient]
                 else Map.empty) \<rparr>"

definition MAX_CONSECUTIVE_ERRORS :: nat where
  "MAX_CONSECUTIVE_ERRORS = 5"

definition INITIAL_BACKOFF :: int where
  "INITIAL_BACKOFF = 60000"

text \<open>\<open>table[exchange][accountId] = v\<close>.\<close>

definition set2 :: "(string \<Rightarrow> string \<rightharpoonup> 'v) \<Rightarrow> string \<Rightarrow> string \<Rightarrow> 'v \<Rightarrow> (string \<Rightarrow> string \<rightharpoonup> 'v)" where
  "set2 table ex acc v = table(ex := (table ex)(acc \<mapsto> v))"

text \<open>
  \<open>fetchExchangeData\<close>. \<open>getData\<close> is the client's \<open>getExchangeData()\<close>: the outcome of
  its promise and the client afterwards. \<open>tCheck\<close> is \<open>Date.now()\<close> at the backoff check
  and \<open>tDone\<close> is \<open>Date.now()\<close> after the call has settled. \<open>undefined > now\<close> is
  false, and \<open>!errorCounts[..][..]\<close> holds for \<open>undefined\<close> and for 0. The function is
  called with the keys of \<open>exchangeClients\<close> only, \<open>binance\<close> and \<open>bybit\<close>; for
  another name its first line throws when the lookup of the exchange gives
  \<open>undefined\<close>. Names that an object inherits (\<open>toString\<close> and the like), for which
  that lookup gives a function, are not modelled: every property below takes the
  exchange to be \<open>binance\<close> or \<open>bybit\<close>.
\<close>

definition fetchExchangeData ::
  "(client \<Rightarrow> (error + ExchangeData) \<times> client) \<Rightarrow> int \<Rightarrow> int \<Rightarrow> string \<Rightarrow> string
     \<Rightarrow> server_state \<Rightarrow> (error + unit) \<times> server_state" where
  "fetchExchangeData getData tCheck tDone ex acc st =
    (if ex \<noteq> ''binance'' \<and> ex \<noteq> ''bybit'' then (Inl TypeError, st)
     else case exchangeClients st ex acc of
       None \<Rightarrow> (Inr (), st)
     | Some c \<Rightarrow>
         if (case backoffTimes st ex acc of None \<Rightarrow> False | Some b \<Rightarrow> b > tCheck)
         then (Inr (), st)
         else (case getData c of
            (Inr data, c') \<Rightarrow>
              (Inr (),
               st\<lparr> exchangeClients := set2 (exchangeClients st) ex acc c',
                   cachedData :=
                     (cachedData st)\<lparr> exchanges := set2 (exchanges (cachedData st)) ex acc data \<rparr>,
                   lastFetchTimes := set2 (lastFetchTimes st) ex acc tDone,
                   errorCounts := set2 (errorCounts st) ex acc 0,
                   backoffTimes := set2 (backoffTimes st) ex acc 0 \<rparr>)
          | (Inl e, c') \<Rightarrow>
              (let n = (case errorCounts st ex acc of None \<Rightarrow> 0 | Some k \<Rightarrow> k) + 1;
                   st1 = st\<lparr> exchangeClients := set2 (exchangeClients st) ex acc c',
                             errorCounts := set2 (errorCounts st) ex acc n \<rparr>
               in if n \<ge> MAX_CONSECUTIVE_ERRORS
                  then (let backoffTime = INITIAL_BACKOFF * 2 ^ (min (n - MAX_CONSECUTIVE_ERRORS) 5)
                        in (Inr (), st1\<lparr> backoffTimes := set2 (backoffTimes st) ex acc (tDone + backoffTime) \<rparr>))
                  else (Inr (), st1))))"

text \<open>
  \<open>setCurrentExchangeAndAccount\<close>. \<open>availableAccounts[exchange].includes\<close> throws a
  TypeError when the exchange has no entry; the \<open>else\<close> branch throws
  \<open>Error('Invalid exchange or account: ...')\<close>.
\<close>

definition setCurrentExchangeAndAccount ::
  "string \<Rightarrow> string \<Rightarrow> server_state \<Rightarrow> (error + unit) \<times> server_state" where
  "setCurrentExchangeAndAccount ex account st =
    (if ex \<in> set (availableExchanges (cachedData st)) then
       (case availableAccounts (cachedData st) ex of
          None \<Rightarrow> (Inl TypeError, st)
        | Some accounts \<Rightarrow>
            if account \<in> set accounts
            then (Inr (), st\<lparr> cachedData := (cachedData st)\<lparr> currentExchange := ex, currentAccount := account \<rparr> \<rparr>)
            else (Inl (InvalidSelection ex account), st))
     else (Inl (InvalidSelection ex account), st))"



section \<open>Formulas of the specification\<close>

text \<open>
  The liquidation buffer as the specification words it, for finite equity \<open>e\<close> and
  maintenance margin \<open>m\<close>: \<open>(e - m) / m \<times> 100\<close> to two decimals, clamped to a maximum of
  100, and 0 when \<open>m \<le> 0\<close>.
\<close>

definition clamped_buffer :: "real \<Rightarrow> real \<Rightarrow> real" where
  "clamped_buffer e m = (if 0 < m then min (round2 ((e - m) / m * 100)) 100 else 0)"

text \<open>
  What holds of a buffer \<open>b\<close> computed from equity \<open>e\<close> and maintenance margin
  \<open>m\<close>: it lies in \<open>[-100, 100]\<close>, is 0 when \<open>m \<le> 0\<close>, has the sign of \<open>e - m\<close>, and
  is within a cent of \<open>(e - m) / m \<times> 100\<close> clamped to a maximum of 100.
\<close>

definition buffer_within :: "real \<Rightarrow> real \<Rightarrow> real \<Rightarrow> bool" where
  "buffer_within e m b =
     (- 100 \<le> b \<and> b \<le> 100
      \<and> (m \<le> 0 \<longrightarrow> b = 0)
      \<and> (m \<le> e \<longrightarrow> 0 \<le> b)
      \<and> (e < m \<longrightarrow> b \<le> 0)
      \<and> (0 < m \<longrightarrow> \<bar>b - min ((e - m) / m * 100) 100\<bar> \<le> 1 / 100))"

text \<open>
  The margin ratio as the specification words it: \<open>m / e \<times> 100\<close> to two decimals,
  and 0 when the equity \<open>e\<close> is not positive.
\<close>

definition guarded_ratio :: "real \<Rightarrow> real \<Rightarrow> real" where
  "guarded_ratio e m = (if 0 < e then round2 (m / e * 100) else 0)"

section \<open>Observations of the service state\<close>

text \<open>
  The two readings \<open>getHealthStatus\<close> takes of a key: \<open>backoffTimes[..][..] > now\<close>
  and \<open>errorCounts[..][..] || 0\<close>.
\<close>

definition in_backoff :: "server_state \<Rightarrow> string \<Rightarrow> string \<Rightarrow> int \<Rightarrow> bool" where
  "in_backoff st ex acc now = (case backoffTimes st ex acc of None \<Rightarrow> False | Some b \<Rightarrow> b > now)"

definition error_count :: "server_state \<Rightarrow> string \<Rightarrow> string \<Rightarrow> nat" where
  "error_count st ex acc = (case errorCounts st ex acc of None \<Rightarrow> 0 | Some k \<Rightarrow> k)"

text \<open>Every available exchange has its list of accounts, as in the module's \<open>cachedData\<close>.\<close>

definition accounts_configured :: "server_state \<Rightarrow> bool" where
  "accounts_configured st =
     (\<forall>e \<in> set (availableExchanges (cachedData st)). availableAccounts (cachedData st) e \<noteq> None)"




section \<open>Sequences of calls\<close>

text \<open>A client whose \<open>getExchangeData\<close> rejects, for the scheduler's failure path.\<close>

definition failing :: "client \<Rightarrow> (error + ExchangeData) \<times> client" where
  "failing c = (Inl RequestFailed, c)"

text \<open>One \<open>fetchExchangeData\<close> of the same key at each of the given times.\<close>

fun fetch_run ::
  "(client \<Rightarrow> (error + ExchangeData) \<times> client) \<Rightarrow> int list \<Rightarrow> string \<Rightarrow> string
     \<Rightarrow> server_state \<Rightarrow> server_state" where
  "fetch_run getData [] ex acc st = st"
| "fetch_run getData (t # ts) ex acc st =
     fetch_run getData ts ex acc (snd (fetchExchangeData getData t t ex acc st))"



section \<open>Example inputs\<close>

text \<open>
  The raw position of the specification's end-to-end scenario:
  \<open>{symbol:'BTCUSDT', positionAmt:'-0.5', markPrice:'60000', leverage:'10',
  entryPrice:'61000', liquidationPrice:'0'}\<close>; every other field is absent.
\<close>

definition scenario_position :: binance_position where
  "scenario_position =
     \<lparr> b_symbol = ''BTCUSDT'',
       b_positionAmt = Some (Fin (- 0.5)),
       b_position = None,
       b_entryPrice = Some (Fin 61000),
       b_avgEntryPrice = None,
       b_markPrice = Some (Fin 60000),
       b_leverage = Some (Fin 10),
       b_unRealizedProfit = None,
       b_unrealizedPnl = None,
       b_liquidationPrice = Some (Fin 0),
       b_marginType = None \<rparr>"

text \<open>
  The same position as the futures endpoint sends it, with \<open>unRealizedProfit:'500'\<close>
  and \<open>marginType:'cross'\<close>.
\<close>

definition futures_record :: binance_position where
  "futures_record =
     scenario_position \<lparr> b_unRealizedProfit := Some (Fin 500), b_marginType := Some ''cross'' \<rparr>"

definition example_account :: binance_account where
  "example_account =
     \<lparr> totalMarginBalance = Some (Fin 1000),
       totalMaintMargin = Some (Fin 100),
       actualEquity = Some (Fin 1000),
       accountMaintMargin = Some (Fin 100),
       accountInitialMargin = Some (Fin 300) \<rparr>"



text \<open>A Bybit long of size 1 at 100, ten times leveraged, and its account.\<close>

definition example_bybit_position :: bybit_position where
  "example_bybit_position =
     \<lparr> y_symbol = ''BTCUSDT'',
       y_size = Some (Fin 1),
       y_avgPrice = Some (Fin 100),
       y_markPrice = Some (Fin 100),
       y_side = ''Buy'',
       y_leverage = Some (Fin 10),
       y_unrealisedPnl = Some (Fin 0),
       y_cumRealisedPnl = None,
       y_positionValue = Some (Fin 100),
       y_walletBalance = None,
       y_tradeMode = Some 0 \<rparr>"

definition example_bybit_account :: bybit_account where
  "example_bybit_account =
     \<lparr> coin = Some [''USDT''],
       totalEquity = Some (Fin 1000),
       totalInitialMargin = Some (Fin 10),
       totalMaintenanceMargin = Some (Fin 4) \<rparr>"


text \<open>A futures account with nothing in it: every total is \<open>'0'\<close>.\<close>

definition zero_balance_account :: binance_account where
  "zero_balance_account =
     \<lparr> totalMarginBalance = Some (Fin 0),
       totalMaintMargin = Some (Fin 0),
       actualEquity = Some (Fin 0),
       accountMaintMargin = Some (Fin 0),
       accountInitialMargin = Some (Fin 0) \<rparr>"

text \<open>
  A normalized long of size 1 with the given notional value (its mark price) and
  leverage.
\<close>

definition example_position :: "string \<Rightarrow> real \<Rightarrow> real \<Rightarrow> Position" where
  "example_position name notional lev =
     \<lparr> symbol = name, side = LONG, size = Fin 1, notionalValue = Fin notional,
       entryPrice = Fin notional, markPrice = Fin notional, liquidationPrice = Fin 0,
       liquidationPriceChangePercent = Fin 0, currentFundingRate = Fin 0,
       nextFundingRate = Fin 0, leverage = Fin lev, unrealizedPnl = Fin 0,
       realizedPnl = Fin 0, marginMode = CROSS, exchange = ''binance'' \<rparr>"



text \<open>The same Bybit position held short.\<close>

definition example_bybit_short :: bybit_position where
  "example_bybit_short = example_bybit_position \<lparr> y_side := ''Sell'' \<rparr>"

section \<open>Rounding to two decimals\<close>

lemmas jsnum_arith =
  plus_jsnum_def uminus_jsnum_def minus_jsnum_def times_jsnum_def divide_jsnum_def
  abs_jsnum_def less_jsnum_def less_eq_jsnum_def

lemma round2_zero: "round2 0 = 0"
  by (simp add: round2_def)

lemma round2_nonneg: "0 \<le> r \<Longrightarrow> 0 \<le> round2 r"
  unfolding round2_def by (simp add: sgn_if)

lemma round2_nonpos: "r \<le> 0 \<Longrightarrow> round2 r \<le> 0"
  unfolding round2_def by (simp add: sgn_if) 

lemma round2_minus: "round2 (- r) = - round2 r"
  unfolding round2_def by (simp add: sgn_if)

lemma round2_mono_nonneg: "0 \<le> x \<Longrightarrow> x \<le> y \<Longrightarrow> round2 x \<le> round2 y"
  unfolding round2_def
  by (auto simp: sgn_if divide_le_cancel intro!: floor_mono)

lemma round2_mono: "x \<le> y \<Longrightarrow> round2 x \<le> round2 y"
proof -
  assume xy: "x \<le> y"
  consider "0 \<le> x" | "y \<le> 0" | "x < 0" "0 < y" by linarith
  then show ?thesis
  proof cases
    case 1 then show ?thesis using xy by (rule round2_mono_nonneg)
  next
    case 2
    then have "round2 (- y) \<le> round2 (- x)" using xy by (intro round2_mono_nonneg) auto
    then show ?thesis by (simp add: round2_minus)
  next
    case 3
    then have "round2 x \<le> 0" "0 \<le> round2 y" by (auto intro: round2_nonpos round2_nonneg)
    then show ?thesis by linarith
  qed
qed

lemma round2_cents: "round2 (of_int k / 100) = of_int k / 100"
proof -
  have "\<lfloor>\<bar>real_of_int k / 100\<bar> * 100 + 1 / 2\<rfloor> = \<bar>k\<bar>"
    by (simp add: floor_unique)
  then show ?thesis unfolding round2_def by (simp add: sgn_if)
qed

lemma round2_idem: "round2 (round2 r) = round2 r"
proof -
  have "round2 r = of_int (sgn \<lfloor>r\<rfloor> * 0 + (if r < 0 then -1 else if r = 0 then 0 else 1) * \<lfloor>\<bar>r\<bar> * 100 + 1 / 2\<rfloor>) / 100"
    unfolding round2_def by (simp add: sgn_if)
  then show ?thesis using round2_cents by metis
qed

lemma round2_err: "\<bar>round2 r - r\<bar> \<le> 1 / 200"
proof -
  define n where "n = \<lfloor>\<bar>r\<bar> * 100 + 1 / 2\<rfloor>"
  have a: "of_int n \<le> \<bar>r\<bar> * 100 + 1 / 2" and b: "\<bar>r\<bar> * 100 + 1 / 2 < of_int n + 1"
    unfolding n_def by linarith+
  have "\<bar>of_int n / 100 - \<bar>r\<bar>\<bar> \<le> 1 / 200" using a b by linarith
  moreover have "\<bar>round2 r - r\<bar> = \<bar>of_int n / 100 - \<bar>r\<bar>\<bar>"
  proof (cases "r = 0")
    case True
    then have "n = 0" unfolding n_def by simp
    with True show ?thesis by (simp add: round2_def)
  next
    case False
    then show ?thesis unfolding round2_def n_def[symmetric] by (auto simp: sgn_if abs_if)
  qed
  ultimately show ?thesis by simp
qed

text \<open>Unfolding the arithmetic on concrete inputs.\<close>

lemmas js_eval = jsnum_arith parseFloat_def or_else_def round2_def Math_min_def Let_def
  toLowerCase_def marginMode_of_def binance_calculateLiquidationDistance_def
  binance_pm_liquidationPrice_def

section \<open>Liquidation buffer\<close>

lemma buffer_calc:
  "Math_min (if Fin m > Fin 0 then toFixed2 (((Fin e - Fin m) / Fin m) * Fin 100) else Fin 0) (Fin 100)
     = Fin (clamped_buffer e m)"
  by (auto simp: clamped_buffer_def Math_min_def jsnum_arith min_def)

lemma binance_futures_buffer:
  "totalMarginBalance a = Some (Fin e) \<Longrightarrow> totalMaintMargin a = Some (Fin m) \<Longrightarrow>
   liquidationBuffer (binance_processAccountSummary FUTURES bal a ps os)
     = Fin (clamped_buffer (round2 e) (round2 m))"
  using buffer_calc[of "round2 m" "round2 e"]
  by (simp add: binance_processAccountSummary_def Let_def parseFloat_def)

lemma binance_pm_buffer:
  "actualEquity a = Some (Fin e) \<Longrightarrow> accountMaintMargin a = Some (Fin m) \<Longrightarrow>
   liquidationBuffer (binance_processAccountSummary PORTFOLIO_MARGIN bal a ps os)
     = Fin (clamped_buffer (round2 e) (round2 m))"
  using buffer_calc[of "round2 m" "round2 e"]
  by (simp add: binance_processAccountSummary_def Let_def parseFloat_def or_else_def)

lemma bybit_buffer:
  "totalEquity y = Some (Fin e) \<Longrightarrow> totalMaintenanceMargin y = Some (Fin m) \<Longrightarrow>
   liquidationBuffer (bybit_accountSummary bal y ps os)
     = Fin (clamped_buffer (round2 e) (round2 m))"
  using buffer_calc[of "round2 m" "round2 e"]
  by (simp add: bybit_accountSummary_def Let_def parseFloat_def or_else_def)

lemma clamped_buffer_le: "clamped_buffer e m \<le> 100"
  by (simp add: clamped_buffer_def)

lemma clamped_buffer_ge: assumes "0 \<le> e" shows "- 100 \<le> clamped_buffer e m"
proof (cases "0 < m")
  case True
  then have "- 1 \<le> (e - m) / m" using assms by (simp add: field_simps)
  then have "(- 1) * 100 \<le> (e - m) / m * 100" by (intro mult_right_mono) simp_all
  then have "- 100 \<le> (e - m) / m * 100" by simp
  then have "round2 (- 100) \<le> round2 ((e - m) / m * 100)" by (rule round2_mono)
  moreover have "round2 (- 100) = - 100" by (simp add: round2_def)
  ultimately show ?thesis using True by (simp add: clamped_buffer_def)
next
  case False then show ?thesis by (simp add: clamped_buffer_def)
qed

lemma clamped_buffer_nonneg: assumes "m \<le> e" shows "0 \<le> clamped_buffer e m"
proof (cases "0 < m")
  case True
  then have "0 \<le> (e - m) / m * 100" using assms by simp
  then have "0 \<le> round2 ((e - m) / m * 100)" by (rule round2_nonneg)
  then show ?thesis using True by (simp add: clamped_buffer_def)
next
  case False then show ?thesis by (simp add: clamped_buffer_def)
qed

lemma clamped_buffer_nonpos: assumes "e < m" shows "clamped_buffer e m \<le> 0"
proof (cases "0 < m")
  case True
  then have "(e - m) / m * 100 \<le> 0" using assms by (simp add: divide_nonpos_pos)
  then have "round2 ((e - m) / m * 100) \<le> 0" by (rule round2_nonpos)
  then show ?thesis using True by (simp add: clamped_buffer_def)
next
  case False then show ?thesis by (simp add: clamped_buffer_def)
qed

lemma clamped_buffer_close:
  assumes "0 < m"
  shows "\<bar>clamped_buffer e m - min ((e - m) / m * 100) 100\<bar> \<le> 1 / 200"
proof -
  have "\<bar>min (round2 x) 100 - min x 100\<bar> \<le> \<bar>round2 x - x\<bar>" for x :: real
    by (simp add: min_def abs_if split: if_splits)
  then have "\<bar>min (round2 x) 100 - min x 100\<bar> \<le> 1 / 200" for x :: real
    using round2_err[of x] by (meson order_trans)
  then show ?thesis using assms by (simp add: clamped_buffer_def)
qed

lemma clamped_buffer_within:
  assumes "0 \<le> e"
  shows "buffer_within e m (clamped_buffer e m)"
proof -
  have "0 < m \<Longrightarrow> \<bar>clamped_buffer e m - min ((e - m) / m * 100) 100\<bar> \<le> 1 / 100"
    using clamped_buffer_close[of m e] by simp
  moreover have "m \<le> 0 \<Longrightarrow> clamped_buffer e m = 0"
    by (simp add: clamped_buffer_def)
  ultimately show ?thesis
    unfolding buffer_within_def
    using clamped_buffer_ge[OF assms, of m] clamped_buffer_le[of e m]
          clamped_buffer_nonneg[of m e] clamped_buffer_nonpos[of e m]
    by blast
qed

text \<open>
  Claim C1, as the code has it. For non-negative equity and maintenance margin read
  from the account response, each of the three clients reports a finite
  \<open>liquidationBuffer\<close> \<open>b\<close> for which, with \<open>E\<close> and \<open>M\<close> the two inputs as the code
  itself rounds them to two decimals (\<open>toFixed2\<close>, both non-negative):
  \<open>-100 \<le> b \<le> 100\<close>; \<open>b = 0\<close> when \<open>M \<le> 0\<close>; \<open>b \<ge> 0\<close> when \<open>M \<le> E\<close> and \<open>b \<le> 0\<close>
  when \<open>E < M\<close>; and \<open>b\<close> is within a cent of \<open>(E - M) / M \<times> 100\<close> clamped to a
  maximum of 100. There is no clamp from below.
\<close>

theorem liquidationBuffer_range:
  assumes "0 \<le> e" and "0 \<le> m"
  shows "\<exists>E M. toFixed2 (Fin e) = Fin E \<and> toFixed2 (Fin m) = Fin M \<and> 0 \<le> E \<and> 0 \<le> M
       \<and> (\<exists>b. liquidationBuffer (binance_processAccountSummary FUTURES bal
                 (a\<lparr>totalMarginBalance := Some (Fin e), totalMaintMargin := Some (Fin m)\<rparr>) ps os)
                 = Fin b
              \<and> buffer_within E M b)
       \<and> (\<exists>b. liquidationBuffer (binance_processAccountSummary PORTFOLIO_MARGIN bal
                 (a\<lparr>actualEquity := Some (Fin e), accountMaintMargin := Some (Fin m)\<rparr>) ps os)
                 = Fin b
              \<and> buffer_within E M b)
       \<and> (\<exists>b. liquidationBuffer (bybit_accountSummary bal
                 (y\<lparr>totalEquity := Some (Fin e), totalMaintenanceMargin := Some (Fin m)\<rparr>) ps os)
                 = Fin b
              \<and> buffer_within E M b)"
proof -
  have E: "0 \<le> round2 e" using assms(1) by (rule round2_nonneg)
  have M: "0 \<le> round2 m" using assms(2) by (rule round2_nonneg)
  from E have "buffer_within (round2 e) (round2 m) (clamped_buffer (round2 e) (round2 m))"
    by (rule clamped_buffer_within)
  with E M show ?thesis
    by (intro exI[of _ "round2 e"] exI[of _ "round2 m"])
       (simp add: binance_futures_buffer binance_pm_buffer bybit_buffer)
qed

theorem liquidationBuffer_range_witness:
  "(0::real) \<le> 150 \<and> (0::real) \<le> 100
   \<and> toFixed2 (Fin 150) = Fin 150 \<and> toFixed2 (Fin 100) = Fin 100
   \<and> (\<exists>b. liquidationBuffer (binance_processAccountSummary FUTURES (Fin 0)
         \<lparr>totalMarginBalance = Some (Fin 150), totalMaintMargin = Some (Fin 100),
          actualEquity = None, accountMaintMargin = None, accountInitialMargin = None\<rparr>
         [] ([] :: raw_order list)) = Fin b \<and> - 100 \<le> b \<and> b \<le> 100 \<and> 0 \<le> b
         \<and> \<bar>b - 50\<bar> \<le> 1 / 100)"
proof -
  have r: "toFixed2 (Fin 150) = Fin 150" "toFixed2 (Fin 100) = Fin 100"
    by (simp_all add: round2_def)
  from liquidationBuffer_range[of 150 100 "Fin 0"
      "\<lparr>totalMarginBalance = None, totalMaintMargin = None,
          actualEquity = None, accountMaintMargin = None, accountInitialMargin = None\<rparr>"
      "[]" "[] :: raw_order list" example_bybit_account]
  obtain E M b where
    "toFixed2 (Fin 150) = Fin E" "toFixed2 (Fin 100) = Fin M"
    and b: "liquidationBuffer (binance_processAccountSummary FUTURES (Fin 0)
         \<lparr>totalMarginBalance = Some (Fin 150), totalMaintMargin = Some (Fin 100),
          actualEquity = None, accountMaintMargin = None, accountInitialMargin = None\<rparr>
         [] ([] :: raw_order list)) = Fin b"
    and w: "buffer_within E M b"
    by auto
  then have "E = 150" "M = 100" using r by simp_all
  with w have "- 100 \<le> b \<and> b \<le> 100 \<and> 0 \<le> b \<and> \<bar>b - 50\<bar> \<le> 1 / 100"
    unfolding buffer_within_def by simp
  with b r show ?thesis by auto
qed

text \<open>
  Claim C1 as stated fails: with equity 50 below a maintenance margin of 100 every
  client reports a buffer of -50.
\<close>

theorem liquidationBuffer_negative:
  "liquidationBuffer (binance_processAccountSummary FUTURES (Fin 0)
         \<lparr>totalMarginBalance = Some (Fin 50), totalMaintMargin = Some (Fin 100),
          actualEquity = None, accountMaintMargin = None, accountInitialMargin = None\<rparr>
         [] ([] :: raw_order list)) = Fin (- 50)
   \<and> liquidationBuffer (binance_processAccountSummary PORTFOLIO_MARGIN (Fin 0)
         \<lparr>totalMarginBalance = None, totalMaintMargin = None,
          actualEquity = Some (Fin 50), accountMaintMargin = Some (Fin 100), accountInitialMargin = None\<rparr>
         [] ([] :: raw_order list)) = Fin (- 50)
   \<and> liquidationBuffer (bybit_accountSummary (Fin 0)
         \<lparr>coin = Some [], totalEquity = Some (Fin 50), totalInitialMargin = None,
          totalMaintenanceMargin = Some (Fin 100)\<rparr>
         [] ([] :: raw_order list)) = Fin (- 50)
   \<and> \<not> (Fin 0 \<le> Fin (- 50))"
  by (simp add: binance_futures_buffer binance_pm_buffer bybit_buffer clamped_buffer_def round2_def
        jsnum_arith)

section \<open>Margin ratio\<close>

lemma futures_marginRatio:
  "totalMarginBalance a = Some e \<Longrightarrow> totalMaintMargin a = Some m \<Longrightarrow>
   accountMarginRatio (binance_processAccountSummary FUTURES bal a ps os)
     = toFixed2 (toFixed2 m / toFixed2 e * Fin 100)"
  by (simp add: binance_processAccountSummary_def Let_def parseFloat_def)

lemma pm_marginRatio:
  "actualEquity a = Some (Fin e) \<Longrightarrow> accountMaintMargin a = Some (Fin m) \<Longrightarrow>
   accountMarginRatio (binance_processAccountSummary PORTFOLIO_MARGIN bal a ps os)
     = Fin (if 0 < round2 m then guarded_ratio (round2 e) (round2 m) else 0)"
  by (simp add: binance_processAccountSummary_def Let_def parseFloat_def or_else_def jsnum_arith
        guarded_ratio_def)

lemma bybit_marginRatio:
  "totalEquity a = Some (Fin e) \<Longrightarrow> totalMaintenanceMargin a = Some (Fin m) \<Longrightarrow>
   accountMarginRatio (bybit_accountSummary bal a ps os)
     = Fin (guarded_ratio (round2 e) (round2 m))"
  by (simp add: bybit_accountSummary_def Let_def parseFloat_def or_else_def jsnum_arith
        guarded_ratio_def)

lemma futures_marginRatio_nonzero_equity:
  "totalMarginBalance a = Some (Fin e) \<Longrightarrow> totalMaintMargin a = Some (Fin m) \<Longrightarrow> round2 e \<noteq> 0 \<Longrightarrow>
   accountMarginRatio (binance_processAccountSummary FUTURES bal a ps os)
     = Fin (round2 (round2 m / round2 e * 100))"
  by (simp add: futures_marginRatio jsnum_arith)

text \<open>
  Claim C5 against the code. On a futures account whose \<open>totalMarginBalance\<close> is 0 the
  unguarded division gives \<open>accountMarginRatio = NaN\<close> when the maintenance margin is 0
  too, and \<open>Infinity\<close> when it is 5; the portfolio-margin and Bybit paths, which test
  the equity first, give 0 on the same figures.
\<close>

theorem futures_marginRatio_zero_equity:
  "accountMarginRatio (binance_processAccountSummary FUTURES (Fin 0) zero_balance_account
      [] ([] :: raw_order list)) = NaN
   \<and> accountMarginRatio (binance_processAccountSummary FUTURES (Fin 0)
      (zero_balance_account\<lparr>totalMaintMargin := Some (Fin 5)\<rparr>) [] ([] :: raw_order list)) = PInf
   \<and> accountMarginRatio (binance_processAccountSummary PORTFOLIO_MARGIN (Fin 0) zero_balance_account
      [] ([] :: raw_order list)) = Fin 0
   \<and> accountMarginRatio (bybit_accountSummary (Fin 0)
      \<lparr>coin = Some [], totalEquity = Some (Fin 0), totalInitialMargin = Some (Fin 0),
       totalMaintenanceMargin = Some (Fin 0)\<rparr> [] ([] :: raw_order list)) = Fin 0"
  by (simp add: futures_marginRatio pm_marginRatio bybit_marginRatio zero_balance_account_def
        guarded_ratio_def round2_def jsnum_arith)

section \<open>Liquidation distance\<close>

lemma toFixed2_idem: "toFixed2 (toFixed2 x) = toFixed2 x"
  by (cases x) (simp_all add: round2_idem)

lemma binance_distance_rounded:
  "toFixed2 (binance_calculateLiquidationDistance mk lq) = binance_calculateLiquidationDistance mk lq"
  by (simp add: binance_calculateLiquidationDistance_def toFixed2_idem round2_zero)

lemma bybit_distance_rounded:
  "toFixed2 (bybit_calculateLiquidationDistance mk lq sd) = bybit_calculateLiquidationDistance mk lq sd"
  by (simp add: bybit_calculateLiquidationDistance_def toFixed2_idem round2_zero)

lemma binance_distance_Fin:
  "0 < m \<Longrightarrow> binance_calculateLiquidationDistance (Fin m) (Fin l)
     = Fin (if l = 0 then 0 else round2 (\<bar>m - l\<bar> / m * 100))"
  by (simp add: binance_calculateLiquidationDistance_def jsnum_arith)

lemma bybit_distance_Fin:
  "0 < m \<Longrightarrow> bybit_calculateLiquidationDistance (Fin m) (Fin l) sd
     = Fin (if l = 0 then 0
            else round2 ((if sd = LONG then l - m else m - l) / m * 100))"
  by (simp add: bybit_calculateLiquidationDistance_def jsnum_arith)

lemma binance_distance_nonneg:
  assumes "0 < m"
  shows "Fin 0 \<le> binance_calculateLiquidationDistance (Fin m) (Fin l)"
proof -
  have "0 \<le> round2 (\<bar>m - l\<bar> / m * 100)" using assms by (intro round2_nonneg) simp
  then show ?thesis using assms by (auto simp: binance_distance_Fin jsnum_arith)
qed

lemma futures_position_distance:
  "binance_futures_position fr pos = Inr p \<Longrightarrow>
   liquidationPriceChangePercent p = binance_calculateLiquidationDistance (markPrice p) (liquidationPrice p)"
  by (auto simp: binance_futures_position_def Let_def binance_distance_rounded split: option.splits)

lemma bybit_position_distance:
  "liquidationPriceChangePercent (bybit_mapPosition pos fr) =
     bybit_calculateLiquidationDistance (markPrice (bybit_mapPosition pos fr))
       (liquidationPrice (bybit_mapPosition pos fr)) (side (bybit_mapPosition pos fr))"
  by (simp add: bybit_mapPosition_def Let_def bybit_distance_rounded)

lemma pm_position_distance:
  "\<exists>lq. liquidationPrice (binance_pm_position fr pos) = toFixed2 lq
       \<and> markPrice (binance_pm_position fr pos) = toFixed2 (parseFloat (b_markPrice pos))
       \<and> liquidationPriceChangePercent (binance_pm_position fr pos)
           = binance_calculateLiquidationDistance (parseFloat (b_markPrice pos)) lq"
proof -
  have m: "or_else (b_markPrice pos) (b_markPrice pos) = b_markPrice pos"
    by (simp add: or_else_def split: option.splits)
  show ?thesis
    unfolding binance_pm_position_def Let_def m
    by (rule exI[of _ "binance_pm_liquidationPrice
             (parseFloat (or_else (b_liquidationPrice pos) (Some (Fin 0))))
             (parseFloat (or_else (b_positionAmt pos) (b_position pos)))
             (parseFloat (b_markPrice pos))
             (parseFloat (or_else (b_leverage pos) (Some (Fin 1))))
             (str_includes (b_symbol pos) ''_'' \<or> str_includes (b_symbol pos) ''USD_'')"])
       (simp add: binance_distance_rounded)
qed

lemmas bybit_eval = bybit_mapPosition_def bybit_calculateLiquidationPrice_def
  bybit_calculateLiquidationDistance_def example_bybit_position_def

text \<open>
  On the Bybit path a long whose liquidation price is at or below the mark, and a short
  whose liquidation price is at or above it, get a distance that is negative or zero.
\<close>

lemma bybit_distance_healthy:
  assumes "0 < l" and "0 < m"
      and "(sd = LONG \<and> l \<le> m) \<or> (sd = SHORT \<and> m \<le> l)"
  shows "\<exists>d. bybit_calculateLiquidationDistance (Fin m) (Fin l) sd = Fin d \<and> d \<le> 0"
proof -
  have "(if sd = LONG then l - m else m - l) / m * 100 \<le> 0"
    using assms by (auto simp: divide_nonpos_pos)
  then have "round2 ((if sd = LONG then l - m else m - l) / m * 100) \<le> 0"
    by (rule round2_nonpos)
  then show ?thesis using assms(1,2) by (simp add: bybit_distance_Fin)
qed

text \<open>A record without a liquidation price parses to \<open>NaN\<close>, and so does its distance.\<close>

lemma binance_distance_no_liquidationPrice:
  "binance_calculateLiquidationDistance (Fin m) NaN = NaN"
  by (simp add: binance_calculateLiquidationDistance_def jsnum_arith)

text \<open>
  Claim C6 against the code. The Bybit normalizer gives a long of size 1 at 100, ten
  times leveraged, the liquidation price 94 and the distance -6, and the same position
  held short the liquidation price 106 and the distance -6 again; the Binance
  calculation gives 6 for both pairs of prices.
\<close>

theorem bybit_distance_negative:
  "side (bybit_mapPosition example_bybit_position None) = LONG
   \<and> markPrice (bybit_mapPosition example_bybit_position None) = Fin 100
   \<and> liquidationPrice (bybit_mapPosition example_bybit_position None) = Fin 94
   \<and> liquidationPriceChangePercent (bybit_mapPosition example_bybit_position None) = Fin (- 6)
   \<and> side (bybit_mapPosition example_bybit_short None) = SHORT
   \<and> markPrice (bybit_mapPosition example_bybit_short None) = Fin 100
   \<and> liquidationPrice (bybit_mapPosition example_bybit_short None) = Fin 106
   \<and> liquidationPriceChangePercent (bybit_mapPosition example_bybit_short None) = Fin (- 6)
   \<and> binance_calculateLiquidationDistance (Fin 100) (Fin 94) = Fin 6
   \<and> binance_calculateLiquidationDistance (Fin 100) (Fin 106) = Fin 6
   \<and> \<not> Fin 0 \<le> Fin (- 6)"
  by (simp add: bybit_eval example_bybit_short_def js_eval)

section \<open>Account leverage\<close>

lemma foldl_plus_Fin:
  "(\<forall>p \<in> set ps. f p = Fin (g p)) \<Longrightarrow>
   foldl (\<lambda>s p. s + f p) (Fin a) ps = Fin (a + sum_list (map g ps))"
  by (induction ps arbitrary: a) (simp_all add: jsnum_arith add.assoc)

lemma binance_accountLeverage_mean:
  assumes "\<forall>p \<in> set ps. leverage p = Fin (lev p)" and "ps \<noteq> []"
  shows "accountLeverage (binance_processAccountSummary t bal a ps os)
           = Fin (round2 (sum_list (map lev ps) / real (length ps)))"
proof -
  have "foldl (\<lambda>s p. s + leverage p) (Fin 0) ps = Fin (0 + sum_list (map lev ps))"
    using assms(1) by (rule foldl_plus_Fin)
  then show ?thesis
    using assms(2)
    by (cases t; simp add: binance_processAccountSummary_def Let_def jsnum_arith)
qed

lemma bybit_accountLeverage_weighted:
  assumes "\<forall>p \<in> set ps. leverage p = Fin (lev p) \<and> notionalValue p = Fin (ntl p)
              \<and> size p = Fin (sz p) \<and> markPrice p = Fin (mk p)"
      and "ps \<noteq> []"
  shows "accountLeverage (bybit_accountSummary bal a ps os)
           = Fin (if 0 < round2 (sum_list (map (\<lambda>p. \<bar>sz p\<bar> * mk p) ps))
                  then round2 (sum_list (map (\<lambda>p. lev p * ntl p) ps)
                               / round2 (sum_list (map (\<lambda>p. \<bar>sz p\<bar> * mk p) ps)))
                  else 0)"
proof -
  have w: "foldl (\<lambda>s p. s + leverage p * notionalValue p) (Fin 0) ps
             = Fin (0 + sum_list (map (\<lambda>p. lev p * ntl p) ps))"
    using assms(1) by (intro foldl_plus_Fin) (simp add: jsnum_arith)
  have n: "foldl (\<lambda>s p. s + \<bar>size p\<bar> * markPrice p) (Fin 0) ps
             = Fin (0 + sum_list (map (\<lambda>p. \<bar>sz p\<bar> * mk p) ps))"
    using assms(1) by (intro foldl_plus_Fin) (simp add: jsnum_arith)
  show ?thesis
    using assms(2) w n
    by (simp add: bybit_accountSummary_def bybit_calculateTotalNotionalValue_def Let_def jsnum_arith)
qed

text \<open>
  When the total the Bybit summary divides by is the sum of the notional values, its
  leverage is within half a cent of the notional-weighted mean.
\<close>

lemma bybit_accountLeverage_within_tolerance:
  assumes "\<forall>p \<in> set ps. leverage p = Fin (lev p) \<and> notionalValue p = Fin (ntl p)
              \<and> size p = Fin (sz p) \<and> markPrice p = Fin (mk p)"
      and "ps \<noteq> []"
      and "round2 (sum_list (map (\<lambda>p. \<bar>sz p\<bar> * mk p) ps)) = sum_list (map ntl ps)"
      and "0 < sum_list (map ntl ps)"
  shows "\<exists>v. accountLeverage (bybit_accountSummary bal a ps os) = Fin v
            \<and> \<bar>v - sum_list (map (\<lambda>p. lev p * ntl p) ps) / sum_list (map ntl ps)\<bar> \<le> 1 / 200"
  using bybit_accountLeverage_weighted[OF assms(1,2), of bal a os] assms(3,4) round2_err
  by simp

text \<open>
  Claim C2 against the code. For the positions 1000 at 10x and 3000 at 5x both Binance
  variants report the plain mean 7.5 of the two leverages; the Bybit summary reports
  the notional-weighted 6.25 of the claim.
\<close>

theorem binance_accountLeverage_unweighted:
  "accountLeverage (binance_processAccountSummary FUTURES (Fin 0) example_account
       [example_position ''BTCUSDT'' 1000 10, example_position ''ETHUSDT'' 3000 5]
       ([] :: raw_order list)) = Fin 7.5
   \<and> accountLeverage (binance_processAccountSummary PORTFOLIO_MARGIN (Fin 0) example_account
       [example_position ''BTCUSDT'' 1000 10, example_position ''ETHUSDT'' 3000 5]
       ([] :: raw_order list)) = Fin 7.5
   \<and> accountLeverage (bybit_accountSummary (Fin 0) example_bybit_account
       [example_position ''BTCUSDT'' 1000 10, example_position ''ETHUSDT'' 3000 5]
       ([] :: raw_order list)) = Fin 6.25
   \<and> Fin 7.5 \<noteq> Fin 6.25"
  by (simp add: binance_processAccountSummary_def bybit_accountSummary_def
        bybit_calculateTotalNotionalValue_def example_position_def js_eval)

section \<open>The end-to-end scenario\<close>

text \<open>
  Claim C7 against the code. The futures normalizer rejects the scenario's record as it
  stands (no \<open>marginType\<close>), and with the fields the futures endpoint sends it gives
  SHORT, size 0.5, notional 30000 and keeps the reported liquidation price 0, with no
  estimate. The portfolio-margin normalizer gives SHORT, 0.5, 30000 and the estimate
  66780.
\<close>

theorem futures_keeps_zero_liquidationPrice:
  "binance_processPositions FUTURES [scenario_position] [] = Inl TypeError
   \<and> binance_processPositions FUTURES [futures_record] [] =
       Inr [\<lparr>symbol = ''BTCUSDT'', side = SHORT, size = Fin (1 / 2),
             notionalValue = Fin 30000, entryPrice = Fin 61000,
             markPrice = Fin 60000, liquidationPrice = Fin 0,
             liquidationPriceChangePercent = Fin 0, currentFundingRate = Fin 0,
             nextFundingRate = Fin 0, leverage = Fin 10,
             unrealizedPnl = Fin 500, realizedPnl = Fin 0, marginMode = CROSS,
             exchange = ''binance''\<rparr>]
   \<and> binance_processPositions PORTFOLIO_MARGIN [scenario_position] [] =
       Inr [\<lparr>symbol = ''BTCUSDT'', side = SHORT, size = Fin (1 / 2),
             notionalValue = Fin 30000, entryPrice = Fin 61000,
             markPrice = Fin 60000, liquidationPrice = Fin 66780,
             liquidationPriceChangePercent = Fin (113 / 10),
             currentFundingRate = Fin 0, nextFundingRate = Fin 0,
             leverage = Fin 10, unrealizedPnl = Fin 0, realizedPnl = Fin 0,
             marginMode = CROSS, exchange = ''binance''\<rparr>]"
  by (simp add: binance_processPositions_def binance_futures_position_def binance_pm_position_def
        scenario_position_def futures_record_def js_eval)

section \<open>Selecting the current exchange and account\<close>

lemma accounts_configured_initial: "accounts_configured initial_state"
  by (simp add: accounts_configured_def initial_state_def initial_cachedData_def)

lemma accounts_configured_registered: "accounts_configured registered_state"
  by (simp add: accounts_configured_def registered_state_def initial_state_def initial_cachedData_def)

lemma accounts_configured_setCurrent:
  "accounts_configured st \<Longrightarrow> accounts_configured (snd (setCurrentExchangeAndAccount ex a st))"
  by (auto simp: accounts_configured_def setCurrentExchangeAndAccount_def split: option.splits)

lemma fetch_cachedData_frame:
  "availableExchanges (cachedData (snd (fetchExchangeData g tc td ex a st)))
     = availableExchanges (cachedData st)
   \<and> availableAccounts (cachedData (snd (fetchExchangeData g tc td ex a st)))
     = availableAccounts (cachedData st)"
  by (simp add: fetchExchangeData_def Let_def split: option.split prod.split sum.split)

lemma accounts_configured_fetch:
  "accounts_configured st \<Longrightarrow> accounts_configured (snd (fetchExchangeData g tc td ex a st))"
  by (simp add: accounts_configured_def fetch_cachedData_frame)

text \<open>
  Claim C8. In a state whose available exchanges all have their list of accounts,
  \<open>setCurrentExchangeAndAccount\<close> succeeds exactly when the exchange is one of
  \<open>availableExchanges\<close> and the account is one of \<open>availableAccounts[exchange]\<close>, and
  then sets the two selection fields; otherwise it throws the invalid-selection error
  and the state is as before.
\<close>

theorem setCurrent_iff_available:
  assumes "accounts_configured st"
  shows "setCurrentExchangeAndAccount ex account st =
           (if ex \<in> set (availableExchanges (cachedData st))
               \<and> (\<exists>accounts. availableAccounts (cachedData st) ex = Some accounts
                                \<and> account \<in> set accounts)
            then (Inr (), st\<lparr>cachedData :=
                               (cachedData st)\<lparr>currentExchange := ex, currentAccount := account\<rparr>\<rparr>)
            else (Inl (InvalidSelection ex account), st))"
  using assms
  by (auto simp: accounts_configured_def setCurrentExchangeAndAccount_def split: option.splits)

text \<open>
  With the three clients registered: \<open>bybit/unified\<close> is accepted,
  \<open>unknown-exchange/x\<close> and \<open>bybit/futures\<close> are refused and change nothing.
\<close>

theorem setCurrent_iff_available_witness:
  "accounts_configured registered_state
   \<and> setCurrentExchangeAndAccount ''bybit'' ''unified'' registered_state =
       (Inr (), registered_state\<lparr>cachedData :=
          (cachedData registered_state)\<lparr>currentExchange := ''bybit'', currentAccount := ''unified''\<rparr>\<rparr>)
   \<and> setCurrentExchangeAndAccount ''unknown-exchange'' ''x'' registered_state =
       (Inl (InvalidSelection ''unknown-exchange'' ''x''), registered_state)
   \<and> setCurrentExchangeAndAccount ''bybit'' ''futures'' registered_state =
       (Inl (InvalidSelection ''bybit'' ''futures''), registered_state)"
  using setCurrent_iff_available[OF accounts_configured_registered, of "''bybit''" "''unified''"]
        setCurrent_iff_available[OF accounts_configured_registered, of "''unknown-exchange''" "''x''"]
        setCurrent_iff_available[OF accounts_configured_registered, of "''bybit''" "''futures''"]
        accounts_configured_registered
  by (simp add: registered_state_def initial_state_def initial_cachedData_def)

text \<open>
  Claim C10. Whatever its arguments and its outcome, \<open>setCurrentExchangeAndAccount\<close>
  leaves the clients, \<open>lastFetchTimes\<close>, \<open>errorCounts\<close>, \<open>backoffTimes\<close>, the
  cached \<open>exchanges\<close>, \<open>availableExchanges\<close> and \<open>availableAccounts\<close> as they were:
  the state afterwards is the state before, or, on success, the state before with
  \<open>currentExchange\<close> and \<open>currentAccount\<close> set to the arguments.
\<close>

theorem setCurrent_frame:
  "exchangeClients (snd (setCurrentExchangeAndAccount ex account st)) = exchangeClients st
   \<and> lastFetchTimes (snd (setCurrentExchangeAndAccount ex account st)) = lastFetchTimes st
   \<and> errorCounts (snd (setCurrentExchangeAndAccount ex account st)) = errorCounts st
   \<and> backoffTimes (snd (setCurrentExchangeAndAccount ex account st)) = backoffTimes st
   \<and> exchanges (cachedData (snd (setCurrentExchangeAndAccount ex account st)))
        = exchanges (cachedData st)
   \<and> availableExchanges (cachedData (snd (setCurrentExchangeAndAccount ex account st)))
        = availableExchanges (cachedData st)
   \<and> availableAccounts (cachedData (snd (setCurrentExchangeAndAccount ex account st)))
        = availableAccounts (cachedData st)
   \<and> (snd (setCurrentExchangeAndAccount ex account st) = st
        \<or> (fst (setCurrentExchangeAndAccount ex account st) = Inr ()
            \<and> snd (setCurrentExchangeAndAccount ex account st) =
                st\<lparr>cachedData :=
                     (cachedData st)\<lparr>currentExchange := ex, currentAccount := account\<rparr>\<rparr>))"
  by (simp add: setCurrentExchangeAndAccount_def split: option.splits)

section \<open>The fetch scheduler\<close>

lemma set2_same: "set2 t ex acc v ex acc = Some v"
  by (simp add: set2_def)

lemma fetch_failure:
  assumes "ex = ''binance'' \<or> ex = ''bybit''"
      and "exchangeClients st ex acc = Some c"
      and "\<not> in_backoff st ex acc tCheck"
      and "getData c = (Inl e, c')"
  shows "fetchExchangeData getData tCheck tDone ex acc st =
           (Inr (),
            st\<lparr> exchangeClients := set2 (exchangeClients st) ex acc c',
                errorCounts := set2 (errorCounts st) ex acc (error_count st ex acc + 1),
                backoffTimes :=
                  (if error_count st ex acc + 1 \<ge> 5
                   then set2 (backoffTimes st) ex acc
                          (tDone + 60000 * 2 ^ (min (error_count st ex acc + 1 - 5) 5))
                   else backoffTimes st) \<rparr>)"
  using assms
  by (auto simp: fetchExchangeData_def in_backoff_def error_count_def Let_def
        MAX_CONSECUTIVE_ERRORS_def INITIAL_BACKOFF_def split: option.splits)

lemma fetch_success:
  assumes "ex = ''binance'' \<or> ex = ''bybit''"
      and "exchangeClients st ex acc = Some c"
      and "\<not> in_backoff st ex acc tCheck"
      and "getData c = (Inr d, c')"
  shows "fetchExchangeData getData tCheck tDone ex acc st =
           (Inr (),
            st\<lparr> exchangeClients := set2 (exchangeClients st) ex acc c',
                cachedData := (cachedData st)\<lparr> exchanges := set2 (exchanges (cachedData st)) ex acc d \<rparr>,
                lastFetchTimes := set2 (lastFetchTimes st) ex acc tDone,
                errorCounts := set2 (errorCounts st) ex acc 0,
                backoffTimes := set2 (backoffTimes st) ex acc 0 \<rparr>)"
  using assms
  by (auto simp: fetchExchangeData_def in_backoff_def split: option.splits)


lemma backoff_values:
  "(60000::int) * 2 ^ (min ((5::nat) - 5) 5) = 60000"
  "(60000::int) * 2 ^ (min ((6::nat) - 5) 5) = 120000"
  "(60000::int) * 2 ^ (min ((7::nat) - 5) 5) = 240000"
  "(60000::int) * 2 ^ (min ((8::nat) - 5) 5) = 480000"
  "(60000::int) * 2 ^ (min ((9::nat) - 5) 5) = 960000"
  by (simp_all add: min_def)

lemma backoff_cap: "10 \<le> n \<Longrightarrow> (60000::int) * 2 ^ (min (n - 5) 5) = 1920000"
proof -
  assume "10 \<le> n"
  then have "min (n - 5) 5 = 5" by simp
  then show ?thesis by simp
qed

text \<open>
  Claim C4, as the code has it. For a registered key that is not in backoff, a fetch
  whose client call rejects raises the error count to \<open>n\<close>, one more than before;
  below 5 the backoff table is untouched, and from 5 on the key's backoff is set to
  \<open>tDone + 60000 \<times> 2 ^ min (n - 5) 5\<close> milliseconds: 60 s at 5 failures, 120 s at 6,
  240 s at 7, 480 s at 8, 960 s at 9, and 1920 s, the cap, at 10 and every later one. A
  fetch whose client call resolves sets the count and the backoff to 0.
\<close>

theorem backoff_schedule:
  assumes "ex = ''binance'' \<or> ex = ''bybit''"
      and "exchangeClients st ex acc = Some c"
      and "\<not> in_backoff st ex acc tCheck"
      and "st' = snd (fetchExchangeData getData tCheck tDone ex acc st)"
      and "n = error_count st ex acc + 1"
  shows "(\<forall>e c'. getData c = (Inl e, c') \<longrightarrow>
            errorCounts st' ex acc = Some n
          \<and> (n < 5 \<longrightarrow> backoffTimes st' = backoffTimes st)
          \<and> (5 \<le> n \<longrightarrow> backoffTimes st' ex acc = Some (tDone + 60000 * 2 ^ (min (n - 5) 5)))
          \<and> (n = 5 \<longrightarrow> backoffTimes st' ex acc = Some (tDone + 60000))
          \<and> (n = 6 \<longrightarrow> backoffTimes st' ex acc = Some (tDone + 120000))
          \<and> (n = 7 \<longrightarrow> backoffTimes st' ex acc = Some (tDone + 240000))
          \<and> (n = 8 \<longrightarrow> backoffTimes st' ex acc = Some (tDone + 480000))
          \<and> (n = 9 \<longrightarrow> backoffTimes st' ex acc = Some (tDone + 960000))
          \<and> (10 \<le> n \<longrightarrow> backoffTimes st' ex acc = Some (tDone + 1920000)))
       \<and> (\<forall>d c'. getData c = (Inr d, c') \<longrightarrow>
            errorCounts st' ex acc = Some 0 \<and> backoffTimes st' ex acc = Some 0)"
proof (intro conjI allI impI)
  fix e c' assume f: "getData c = (Inl e, c')"
  note r = fetch_failure[where getData=getData and tDone=tDone, OF assms(1-3) f]
  show "errorCounts st' ex acc = Some n"
    using r assms(4,5) by (simp add: set2_same)
  show "backoffTimes st' = backoffTimes st" if "n < 5"
    using r assms(4,5) that by simp
  show b: "backoffTimes st' ex acc = Some (tDone + 60000 * 2 ^ (min (n - 5) 5))" if "5 \<le> n"
    using r assms(4,5) that by (simp add: set2_same)
  show "backoffTimes st' ex acc = Some (tDone + 60000)" if "n = 5"
    using b that by simp
  show "backoffTimes st' ex acc = Some (tDone + 120000)" if "n = 6"
    using b that by simp
  show "backoffTimes st' ex acc = Some (tDone + 240000)" if "n = 7"
    using b that by simp
  show "backoffTimes st' ex acc = Some (tDone + 480000)" if "n = 8"
    using b that by simp
  show "backoffTimes st' ex acc = Some (tDone + 960000)" if "n = 9"
    using b that by simp
  show "backoffTimes st' ex acc = Some (tDone + 1920000)" if "10 \<le> n"
    using b that backoff_cap[OF that] by simp
next
  fix d c' assume s: "getData c = (Inr d, c')"
  note r = fetch_success[where getData=getData and tDone=tDone, OF assms(1-3) s]
  show "errorCounts st' ex acc = Some 0" using r assms(4) by (simp add: set2_same)
  show "backoffTimes st' ex acc = Some 0" using r assms(4) by (simp add: set2_same)
qed


lemmas fetch_eval = fetchExchangeData_def failing_def registered_state_def initial_state_def
  set2_def MAX_CONSECUTIVE_ERRORS_def INITIAL_BACKOFF_def Let_def in_backoff_def error_count_def

text \<open>
  After four failures in a row of \<open>binance/futures\<close> the fifth, at time 4, brings the
  count to 5 and backs off until 60004.
\<close>

theorem backoff_schedule_witness:
  "(''binance'' = ''binance'' \<or> ''binance'' = ''bybit'')
   \<and> exchangeClients (fetch_run failing [0, 1, 2, 3] ''binance'' ''futures'' registered_state)
         ''binance'' ''futures'' = Some (Binance (new_BinanceClient FUTURES))
   \<and> \<not> in_backoff (fetch_run failing [0, 1, 2, 3] ''binance'' ''futures'' registered_state)
          ''binance'' ''futures'' 4
   \<and> 5 = error_count (fetch_run failing [0, 1, 2, 3] ''binance'' ''futures'' registered_state)
          ''binance'' ''futures'' + 1
   \<and> errorCounts (snd (fetchExchangeData failing 4 4 ''binance'' ''futures''
         (fetch_run failing [0, 1, 2, 3] ''binance'' ''futures'' registered_state)))
         ''binance'' ''futures'' = Some 5
   \<and> backoffTimes (snd (fetchExchangeData failing 4 4 ''binance'' ''futures''
         (fetch_run failing [0, 1, 2, 3] ''binance'' ''futures'' registered_state)))
         ''binance'' ''futures'' = Some 60004"
proof -
  let ?st = "fetch_run failing [0, 1, 2, 3] ''binance'' ''futures'' registered_state"
  have k: "''binance'' = ''binance'' \<or> ''binance'' = ''bybit''" by simp
  have c: "exchangeClients ?st ''binance'' ''futures'' = Some (Binance (new_BinanceClient FUTURES))"
    by (simp add: fetch_eval)
  have nb: "\<not> in_backoff ?st ''binance'' ''futures'' 4"
    by (simp add: fetch_eval)
  have n: "5 = error_count ?st ''binance'' ''futures'' + 1"
    by (simp add: fetch_eval)
  have g: "failing (Binance (new_BinanceClient FUTURES))
             = (Inl RequestFailed, Binance (new_BinanceClient FUTURES))"
    by (simp add: failing_def)
  from backoff_schedule[OF k c nb refl n, of failing 4] g
  have "errorCounts (snd (fetchExchangeData failing 4 4 ''binance'' ''futures'' ?st))
          ''binance'' ''futures'' = Some 5
      \<and> backoffTimes (snd (fetchExchangeData failing 4 4 ''binance'' ''futures'' ?st))
          ''binance'' ''futures'' = Some (4 + 60000)"
    by blast
  with k c nb n show ?thesis by simp
qed

text \<open>
  Claim C4 as stated fails at its last figure: ten failures in a row, each attempted as
  soon as the previous backoff has run out, leave a backoff of 1920 s, not 960 s.
\<close>

theorem ten_failures_back_off_1920s:
  "errorCounts (fetch_run failing [0, 1, 2, 3, 4, 60004, 180004, 420004, 900004, 1860004]
       ''binance'' ''futures'' registered_state) ''binance'' ''futures'' = Some 10 \<and>
   backoffTimes (fetch_run failing [0, 1, 2, 3, 4, 60004, 180004, 420004, 900004, 1860004]
       ''binance'' ''futures'' registered_state) ''binance'' ''futures'' = Some (1860004 + 1920000)
   \<and> (1860004 + 1920000 :: int) \<noteq> 1860004 + 960000"
  by (simp add: fetchExchangeData_def failing_def registered_state_def initial_state_def set2_def
       MAX_CONSECUTIVE_ERRORS_def INITIAL_BACKOFF_def Let_def)

section \<open>What a fetch resolves with\<close>




lemma Promise_all_length: "Promise_all rs = Inr xs \<Longrightarrow> length xs = length rs"
  by (induction rs arbitrary: xs rule: Promise_all.induct) (auto split: sum.splits)





























section \<open>Failed requests\<close>












end
